theory Spec2Isabelle
  imports Main
begin

section \<open>The annotation session of App.jsx\<close>

text \<open>
  The component \<open>App\<close> of \<^verbatim>\<open>src/App.jsx\<close> keeps its whole state in React state
  variables and changes it in event handlers. Each handler is modelled as a function
  from the state in which the handler runs to the state of the next render:
  \<^item> the handler reads the state variables of its render, so every read of a state
    variable in the model is a read of the argument state;
  \<^item> a function passed to a state setter is an updater: React queues it and runs it
    while rendering, hook by hook in the order of the \<open>useState\<close> calls, so the updater
    of \<open>pages\<close> runs before those of \<open>undoStack\<close> and \<open>redoStack\<close>. The updaters of
    the stacks read \<open>pages\<close> of the handler's render; what the updater of \<open>pages\<close> has
    changed in place by then is visible to them. This matters in \<open>handleMouseDown\<close>,
    whose \<open>pages\<close> updater pushes onto the array of the existing page entry;
  \<^item> line and shape objects live in a store and are held by reference: a history
    snapshot is a shallow copy, its arrays are new but their elements are the objects of
    the page, and \<open>handleMouseMove\<close> assigns to fields of such an object;
  \<^item> arrays are modelled by their values, lists of references. Every array in a
    snapshot is a fresh copy, and a page takes over the arrays of a snapshot only when
    that snapshot has been popped, so no array is held twice. \<open>undoStack.pop()\<close> and
    \<open>redoStack.pop()\<close> shorten the array held in the state variable, so the model drops
    the last element of that stack;
  \<^item> a \<open>TypeError\<close> raised on reading a property of \<open>undefined\<close> is the error value of
    a sum type.

  Pointer coordinates are modelled as integers, on which the subtraction of the source
  (\<open>point.x - lastShape.x\<close>) is the exact difference.
\<close>

subsection \<open>Data\<close>

text \<open>The tool identifiers passed to \<open>setSelectedTool\<close> by the tool bar.\<close>

datatype tool = SCRIBBLE | ARROW | RECTANGLE | CIRCLE

text \<open>A stroke: \<^verbatim>\<open>{ points: [pos.x, pos.y], thickness }\<close>; the points are a flat list
  \<open>x\<^sub>0, y\<^sub>0, x\<^sub>1, y\<^sub>1, \<dots>\<close>.\<close>

record line =
  points :: "int list"
  line_thickness :: int

text \<open>A shape: \<^verbatim>\<open>{ type: selectedTool, x, y, width, height, thickness }\<close>.\<close>

record shape =
  shape_type :: tool
  shape_x :: int
  shape_y :: int
  shape_width :: int
  shape_height :: int
  shape_thickness :: int

text \<open>References to line objects and to shape objects.\<close>

type_synonym line_ref = nat
type_synonym shape_ref = nat

text \<open>A history snapshot \<^verbatim>\<open>{ lines, shapes }\<close>, and a page entry, which has the same two
  fields and, where the source writes it, the field \<open>actions\<close> (always the empty array).
  The entries written by \<open>undoAction\<close> and \<open>redoAction\<close> have no \<open>actions\<close> field.\<close>

record snapshot =
  lines :: "line_ref list"
  shapes :: "shape_ref list"

record page = snapshot +
  actions :: "unit list option"

type_synonym pos = "int \<times> int"

text \<open>A mouse event, as far as the handlers look at it: \<open>e.target.getStage()\<close> is a stage
  or null, and the stage's \<open>getPointerPosition()\<close> is a position or null.\<close>

type_synonym stage = "pos option"
type_synonym mouse_event = "stage option"

type_synonym pdf_file = string

text \<open>The state variables of \<open>App\<close>, and the store: the line and shape objects by
  reference, with the next unused reference of each kind. A reference at or above the
  counter names no object; what the store holds there is never read.\<close>

record app_state =
  isDrawing :: bool
  currentPage :: int
  pages :: "int \<rightharpoonup> page"
  undoStack :: "snapshot list"
  redoStack :: "snapshot list"
  numPages :: int
  pdfFile :: "pdf_file option"
  selectedTool :: tool
  fillColor :: string
  thickness :: int
  lineObjects :: "line_ref \<Rightarrow> line"
  shapeObjects :: "shape_ref \<Rightarrow> shape"
  nextLine :: line_ref
  nextShape :: shape_ref

datatype error = TypeError

text \<open>The literals \<^verbatim>\<open>{ lines: [], shapes: [] }\<close> and
  \<^verbatim>\<open>{ lines: [], shapes: [], actions: [] }\<close>.\<close>

definition emptySnapshot :: snapshot where
  "emptySnapshot = \<lparr>lines = [], shapes = []\<rparr>"

definition emptyPage :: page where
  "emptyPage = \<lparr>lines = [], shapes = [], actions = Some []\<rparr>"

text \<open>The initial values of the \<open>useState\<close> calls (lines 30 to 41), with an empty store.\<close>

definition App_init :: app_state where
  "App_init =
     \<lparr>isDrawing = False,
      currentPage = 1,
      pages = [1 \<mapsto> emptyPage],
      undoStack = [emptySnapshot],
      redoStack = [],
      numPages = 0,
      pdfFile = None,
      selectedTool = SCRIBBLE,
      fillColor = ''#000000'',
      thickness = 2,
      lineObjects = (\<lambda>r. \<lparr>points = [], line_thickness = 0\<rparr>),
      shapeObjects = (\<lambda>r. \<lparr>shape_type = SCRIBBLE, shape_x = 0, shape_y = 0, shape_width = 0,
                            shape_height = 0, shape_thickness = 0\<rparr>),
      nextLine = 0,
      nextShape = 0\<rparr>"

text \<open>\<^verbatim>\<open>pages[currentPage]?.lines || []\<close> and \<^verbatim>\<open>pages[currentPage]?.shapes || []\<close>
  (lines 201 and 202, and inside every snapshot): the arrays, as lists of references.\<close>

definition currentLineRefs :: "app_state \<Rightarrow> line_ref list" where
  "currentLineRefs s = (case pages s (currentPage s) of None \<Rightarrow> [] | Some p \<Rightarrow> lines p)"

definition currentShapeRefs :: "app_state \<Rightarrow> shape_ref list" where
  "currentShapeRefs s = (case pages s (currentPage s) of None \<Rightarrow> [] | Some p \<Rightarrow> shapes p)"

text \<open>\<open>currentLines\<close> and \<open>currentShapes\<close> as the renderer reads them: the objects that
  the references name.\<close>

definition currentLines :: "app_state \<Rightarrow> line list" where
  "currentLines s = map (lineObjects s) (currentLineRefs s)"

definition currentShapes :: "app_state \<Rightarrow> shape list" where
  "currentShapes s = map (shapeObjects s) (currentShapeRefs s)"

text \<open>The snapshot object built in \<open>undoAction\<close> and \<open>redoAction\<close>:
  \<^verbatim>\<open>{ lines: [...(pages[currentPage]?.lines || [])], shapes: [...] }\<close>, new arrays of the
  same objects.\<close>

definition currentSnapshot :: "app_state \<Rightarrow> snapshot" where
  "currentSnapshot s = \<lparr>lines = currentLineRefs s, shapes = currentShapeRefs s\<rparr>"

subsection \<open>Handlers\<close>

definition handleToolSelect :: "app_state \<Rightarrow> tool \<Rightarrow> app_state" where
  "handleToolSelect s toolId = s\<lparr>selectedTool := toolId\<rparr>"

text \<open>
  \<open>handleMouseDown\<close> (lines 43 to 82). The updater of \<open>pages\<close> runs first. It takes the
  entry of the current page, or a new empty entry when there is none, and pushes a new
  line or shape object onto the array of that entry, in place. The updater of
  \<open>undoStack\<close> runs next and copies \<open>pages[currentPage]\<close> of the handler's render: where
  the page had an entry, this is the entry just pushed onto, so the snapshot contains the
  new element; where it had none, \<open>pages[currentPage]\<close> is still undefined there and the
  snapshot is empty.
\<close>

definition handleMouseDown :: "app_state \<Rightarrow> mouse_event \<Rightarrow> app_state" where
  "handleMouseDown s e =
     (case e of
        None \<Rightarrow> s
      | Some None \<Rightarrow> s
      | Some (Some pos) \<Rightarrow>
          (let currentPageData =
                 (case pages s (currentPage s) of Some p \<Rightarrow> p | None \<Rightarrow> emptyPage);
               pushed =
                 (if selectedTool s = SCRIBBLE
                  then currentPageData\<lparr>lines := lines currentPageData @ [nextLine s]\<rparr>
                  else currentPageData\<lparr>shapes := shapes currentPageData @ [nextShape s]\<rparr>);
               seen =
                 (case pages s (currentPage s) of
                    Some p \<Rightarrow> \<lparr>lines = lines pushed, shapes = shapes pushed\<rparr>
                  | None \<Rightarrow> \<lparr>lines = [], shapes = []\<rparr>)
           in s\<lparr>isDrawing := True,
                pages := (pages s)(currentPage s \<mapsto> pushed),
                undoStack := undoStack s @ [seen],
                redoStack := [],
                lineObjects :=
                  (if selectedTool s = SCRIBBLE
                   then (lineObjects s)
                          (nextLine s :=
                             \<lparr>points = [fst pos, snd pos], line_thickness = thickness s\<rparr>)
                   else lineObjects s),
                shapeObjects :=
                  (if selectedTool s = SCRIBBLE
                   then shapeObjects s
                   else (shapeObjects s)
                          (nextShape s :=
                             \<lparr>shape_type = selectedTool s,
                              shape_x = fst pos,
                              shape_y = snd pos,
                              shape_width = 0,
                              shape_height = 0,
                              shape_thickness = thickness s\<rparr>)),
                nextLine := (if selectedTool s = SCRIBBLE then nextLine s + 1 else nextLine s),
                nextShape :=
                  (if selectedTool s = SCRIBBLE then nextShape s else nextShape s + 1)\<rparr>))"

text \<open>
  \<open>handleMouseMove\<close> (lines 84 to 105) assigns to fields of the last line or the last
  shape of the current page and returns the page entry it took; the pages map holds the
  same arrays of the same objects afterwards, and every snapshot that holds the object
  sees the assignment.
\<close>

definition handleMouseMove :: "app_state \<Rightarrow> mouse_event \<Rightarrow> error + app_state" where
  "handleMouseMove s e =
     (if \<not> isDrawing s then Inr s
      else case e of
        None \<Rightarrow> Inr s
      | Some None \<Rightarrow> Inr s
      | Some (Some point) \<Rightarrow>
          (case pages s (currentPage s) of
             None \<Rightarrow> Inl TypeError
           | Some currentPageData \<Rightarrow>
               if selectedTool s = SCRIBBLE then
                 (if lines currentPageData = [] then Inl TypeError
                  else
                    let r = last (lines currentPageData);
                        lastLine = lineObjects s r
                    in Inr (s\<lparr>lineObjects := (lineObjects s)
                              (r := lastLine\<lparr>points := points lastLine @ [fst point, snd point]\<rparr>)\<rparr>))
               else
                 (if shapes currentPageData = [] then Inl TypeError
                  else
                    let r = last (shapes currentPageData);
                        lastShape = shapeObjects s r
                    in Inr (s\<lparr>shapeObjects := (shapeObjects s)
                              (r := lastShape
                                 \<lparr>shape_width := fst point - shape_x lastShape,
                                  shape_height := snd point - shape_y lastShape\<rparr>)\<rparr>))))"

definition handleMouseUp :: "app_state \<Rightarrow> app_state" where
  "handleMouseUp s = s\<lparr>isDrawing := False\<rparr>"

text \<open>\<open>undoAction\<close> and \<open>redoAction\<close> (lines 111 to 151): the updater of \<open>pages\<close> builds a
  new entry and changes nothing in place, so the snapshot pushed onto the other stack is
  a copy of the page as it was; the page takes over the arrays of the popped snapshot.\<close>

definition undoAction :: "app_state \<Rightarrow> app_state" where
  "undoAction s =
     (if length (undoStack s) = 0 then s
      else
        let lastState = last (undoStack s)
        in s\<lparr>undoStack := butlast (undoStack s),
             redoStack := redoStack s @ [currentSnapshot s],
             pages := (pages s)(currentPage s \<mapsto>
                        \<lparr>lines = lines lastState, shapes = shapes lastState, actions = None\<rparr>)\<rparr>)"

definition redoAction :: "app_state \<Rightarrow> app_state" where
  "redoAction s =
     (if length (redoStack s) = 0 then s
      else
        let lastState = last (redoStack s)
        in s\<lparr>redoStack := butlast (redoStack s),
             undoStack := undoStack s @ [currentSnapshot s],
             pages := (pages s)(currentPage s \<mapsto>
                        \<lparr>lines = lines lastState, shapes = shapes lastState, actions = None\<rparr>)\<rparr>)"

definition resetCanvas :: "app_state \<Rightarrow> app_state" where
  "resetCanvas s =
     s\<lparr>pages := [1 \<mapsto> emptyPage],
       undoStack := [emptySnapshot],
       redoStack := [],
       currentPage := 1\<rparr>"

definition clearCanvas :: "app_state \<Rightarrow> app_state" where
  "clearCanvas s =
     s\<lparr>pages := (pages s)(currentPage s \<mapsto> emptyPage),
       undoStack := [emptySnapshot],
       redoStack := []\<rparr>"

definition navigatePage :: "app_state \<Rightarrow> int \<Rightarrow> app_state" where
  "navigatePage s page =
     (let s' = (if pages s page = None
                then s\<lparr>pages := (pages s)(page \<mapsto> emptyPage)\<rparr>
                else s)
      in s'\<lparr>currentPage := page\<rparr>)"

text \<open>\<open>handleFileChange\<close>: the argument is \<open>e.target.files[0]\<close>, \<open>None\<close> when no file
  was chosen (the source then only logs an error).\<close>

definition handleFileChange :: "app_state \<Rightarrow> pdf_file option \<Rightarrow> app_state" where
  "handleFileChange s f =
     (case f of
        Some file \<Rightarrow> resetCanvas (s\<lparr>pdfFile := Some file, numPages := 0, currentPage := 1\<rparr>)
      | None \<Rightarrow> s)"

definition onDocumentLoadSuccess :: "app_state \<Rightarrow> int \<Rightarrow> app_state" where
  "onDocumentLoadSuccess s n = s\<lparr>numPages := n\<rparr>"

subsection \<open>Sequences of events\<close>

text \<open>A run of pointer-move events; it stops at the first error, as the exception would
  stop the application.\<close>

fun handleMouseMoves :: "app_state \<Rightarrow> mouse_event list \<Rightarrow> error + app_state" where
  "handleMouseMoves s [] = Inr s"
| "handleMouseMoves s (e # es) =
     (case handleMouseMove s e of Inl err \<Rightarrow> Inl err | Inr s' \<Rightarrow> handleMouseMoves s' es)"

text \<open>A completed draw: the tool chosen in the tool bar, a pointer-down at a valid
  position, any number of pointer-moves, and the pointer-up.\<close>

record draw =
  draw_tool :: tool
  draw_start :: pos
  draw_moves :: "mouse_event list"

definition completedDraw :: "app_state \<Rightarrow> draw \<Rightarrow> error + app_state" where
  "completedDraw s d =
     (case handleMouseMoves
             (handleMouseDown (handleToolSelect s (draw_tool d)) (Some (Some (draw_start d))))
             (draw_moves d) of
        Inl err \<Rightarrow> Inl err
      | Inr s' \<Rightarrow> Inr (handleMouseUp s'))"

fun completedDraws :: "app_state \<Rightarrow> draw list \<Rightarrow> error + app_state" where
  "completedDraws s [] = Inr s"
| "completedDraws s (d # ds) =
     (case completedDraw s d of Inl err \<Rightarrow> Inl err | Inr s' \<Rightarrow> completedDraws s' ds)"

text \<open>The events of the user interface, and a run of them from a state.\<close>

datatype event =
    ToolSelect tool
  | MouseDown mouse_event
  | MouseMove mouse_event
  | MouseUp
  | Undo
  | Redo
  | Clear
  | Navigate int
  | FileChange "pdf_file option"
  | DocumentLoaded int

fun dispatch :: "app_state \<Rightarrow> event \<Rightarrow> error + app_state" where
  "dispatch s (ToolSelect t) = Inr (handleToolSelect s t)"
| "dispatch s (MouseDown e) = Inr (handleMouseDown s e)"
| "dispatch s (MouseMove e) = handleMouseMove s e"
| "dispatch s MouseUp = Inr (handleMouseUp s)"
| "dispatch s Undo = Inr (undoAction s)"
| "dispatch s Redo = Inr (redoAction s)"
| "dispatch s Clear = Inr (clearCanvas s)"
| "dispatch s (Navigate n) = Inr (navigatePage s n)"
| "dispatch s (FileChange f) = Inr (handleFileChange s f)"
| "dispatch s (DocumentLoaded n) = Inr (onDocumentLoadSuccess s n)"

fun run :: "app_state \<Rightarrow> event list \<Rightarrow> error + app_state" where
  "run s [] = Inr s"
| "run s (ev # evs) = (case dispatch s ev of Inl err \<Rightarrow> Inl err | Inr s' \<Rightarrow> run s' evs)"

text \<open>The element that \<open>handleMouseMove\<close> changes exists: the current page has an
  entry, with a last line when the tool is \<open>SCRIBBLE\<close> and a last shape otherwise.\<close>

definition lastElementExists :: "app_state \<Rightarrow> bool" where
  "lastElementExists s =
     (case pages s (currentPage s) of
        None \<Rightarrow> False
      | Some p \<Rightarrow> if selectedTool s = SCRIBBLE then lines p \<noteq> [] else shapes p \<noteq> [])"

text \<open>Every reference held by a snapshot or a page names an allocated object.\<close>

definition allocated :: "app_state \<Rightarrow> line_ref list \<Rightarrow> shape_ref list \<Rightarrow> bool" where
  "allocated s ls ss = (list_all (\<lambda>r. r < nextLine s) ls \<and> list_all (\<lambda>r. r < nextShape s) ss)"

definition refsAllocated :: "app_state \<Rightarrow> bool" where
  "refsAllocated s =
     ((\<forall>n p. pages s n = Some p \<longrightarrow> allocated s (lines p) (shapes p)) \<and>
      list_all (\<lambda>sn. allocated s (lines sn) (shapes sn)) (undoStack s) \<and>
      list_all (\<lambda>sn. allocated s (lines sn) (shapes sn)) (redoStack s))"

subsection \<open>Sample sessions\<close>






definition thirdStroke :: draw where
  "thirdStroke = \<lparr>draw_tool = SCRIBBLE, draw_start = (5, 5), draw_moves = [Some (Some (6, 6))]\<rparr>"

definition rectangleDrag :: draw where
  "rectangleDrag =
     \<lparr>draw_tool = RECTANGLE, draw_start = (50, 50), draw_moves = [Some (Some (10, 10))]\<rparr>"

section \<open>Properties\<close>

subsection \<open>Undo and redo on an empty stack\<close>

text \<open>
  C7. \<open>undoAction\<close> on an empty undo stack returns the state as it is (pages, both
  stacks, the current page and every other state variable), and so does \<open>redoAction\<close>
  on an empty redo stack.
\<close>

theorem undo_redo_empty_noop:
  "(undoStack s = [] \<longrightarrow> undoAction s = s) \<and> (redoStack s = [] \<longrightarrow> redoAction s = s)"
  by (simp add: undoAction_def redoAction_def)

theorem undo_redo_empty_noop_witness:
  "undoStack (undoAction (clearCanvas App_init)) = []
   \<and> undoAction (undoAction (clearCanvas App_init)) = undoAction (clearCanvas App_init)
   \<and> redoStack App_init = []
   \<and> redoAction App_init = App_init"
  using undo_redo_empty_noop [of "undoAction (clearCanvas App_init)"]
        undo_redo_empty_noop [of App_init]
  by (simp add: undoAction_def clearCanvas_def App_init_def)

subsection \<open>Undo followed by redo\<close>

text \<open>
  C1. In every state whose undo stack is not empty (the reachable ones among them),
  \<open>undoAction\<close> followed at once by \<open>redoAction\<close> leaves the lines and the shapes of
  the current page exactly as they were before the undo; the current page is the same.
\<close>

theorem undo_then_redo_restores:
  "undoStack s \<noteq> [] \<Longrightarrow>
     currentLines (redoAction (undoAction s)) = currentLines s \<and>
     currentShapes (redoAction (undoAction s)) = currentShapes s \<and>
     currentPage (redoAction (undoAction s)) = currentPage s"
  by (simp add: undoAction_def redoAction_def currentLines_def currentShapes_def
        currentLineRefs_def currentShapeRefs_def currentSnapshot_def Let_def)

theorem undo_then_redo_restores_witness:
  "undoStack (handleMouseDown App_init (Some (Some (3, 4)))) \<noteq> [] \<and>
   currentLines (redoAction (undoAction (handleMouseDown App_init (Some (Some (3, 4)))))) =
     [\<lparr>points = [3, 4], line_thickness = 2\<rparr>] \<and>
   currentLines (handleMouseDown App_init (Some (Some (3, 4)))) =
     [\<lparr>points = [3, 4], line_thickness = 2\<rparr>]"
proof -
  let ?s = "handleMouseDown App_init (Some (Some (3, 4)))"
  have h: "undoStack ?s \<noteq> []"
    by (simp add: handleMouseDown_def Let_def)
  have c: "currentLines ?s = [\<lparr>points = [3, 4], line_thickness = 2\<rparr>]"
    by (simp add: handleMouseDown_def App_init_def currentLines_def currentLineRefs_def
        emptyPage_def Let_def)
  from undo_then_redo_restores [OF h] c h show ?thesis
    by simp
qed

subsection \<open>Clearing the current page\<close>

text \<open>
  After \<open>clearCanvas\<close> the two history stacks are not both a single empty snapshot:
  the undo stack is, the redo stack is the empty list. The initial state shows it.
\<close>

theorem clearCanvas_redo_counterexample:
  "\<not> (undoStack (clearCanvas App_init) = [emptySnapshot] \<and>
      redoStack (clearCanvas App_init) = [emptySnapshot])"
  by (simp add: clearCanvas_def)

text \<open>
  C2 (amended). \<open>clearCanvas\<close> empties the lines and shapes of the current page, resets
  the undo stack to a single empty snapshot and the redo stack to the empty list, and
  leaves the entry of every page other than the current one unchanged in the pages map;
  no line or shape object changes.
\<close>

theorem clearCanvas_effect:
  "currentLines (clearCanvas s) = [] \<and>
   currentShapes (clearCanvas s) = [] \<and>
   undoStack (clearCanvas s) = [emptySnapshot] \<and>
   redoStack (clearCanvas s) = [] \<and>
   currentPage (clearCanvas s) = currentPage s \<and>
   (\<forall>n. n \<noteq> currentPage s \<longrightarrow> pages (clearCanvas s) n = pages s n) \<and>
   lineObjects (clearCanvas s) = lineObjects s \<and>
   shapeObjects (clearCanvas s) = shapeObjects s"
  by (simp add: clearCanvas_def currentLines_def currentShapes_def currentLineRefs_def
        currentShapeRefs_def emptyPage_def)

theorem clearCanvas_effect_witness:
  "(1::int) \<noteq> currentPage (navigatePage (handleMouseDown App_init (Some (Some (1, 2)))) 2) \<and>
   pages (clearCanvas (navigatePage (handleMouseDown App_init (Some (Some (1, 2)))) 2)) 1 =
     Some \<lparr>lines = [0], shapes = [], actions = Some []\<rparr> \<and>
   lineObjects (clearCanvas (navigatePage (handleMouseDown App_init (Some (Some (1, 2)))) 2)) 0 =
     \<lparr>points = [1, 2], line_thickness = 2\<rparr> \<and>
   pages (clearCanvas (navigatePage (handleMouseDown App_init (Some (Some (1, 2)))) 2)) 2 =
     Some emptyPage"
  using clearCanvas_effect [of "navigatePage (handleMouseDown App_init (Some (Some (1, 2)))) 2"]
  by (simp add: navigatePage_def handleMouseDown_def App_init_def emptyPage_def Let_def
        clearCanvas_def)

subsection \<open>Beginning a draw\<close>

text \<open>
  C3. After a pointer-down at a valid pointer position the redo stack is empty, so a
  \<open>redoAction\<close> that follows at once changes nothing; this holds in every state, in
  particular in the state left by any number \<open>n\<close> of undos.
\<close>

theorem mouseDown_clears_redo:
  "redoStack (handleMouseDown s (Some (Some pos))) = [] \<and>
   redoAction (handleMouseDown s (Some (Some pos))) = handleMouseDown s (Some (Some pos)) \<and>
   redoAction (handleMouseDown ((undoAction ^^ n) s) (Some (Some pos))) =
     handleMouseDown ((undoAction ^^ n) s) (Some (Some pos))"
  by (simp add: handleMouseDown_def redoAction_def Let_def)

text \<open>
  C5. The claim has the pointer-down push a snapshot of the lines and shapes of the
  current page and then append the new element. The code does not: on the initial
  state, whose page 1 has no line and no shape, the pointer-down at (3, 4) leaves on top
  of the undo stack a snapshot that holds the new stroke, the line with the points 3, 4.
\<close>

theorem mouseDown_snapshot_holds_new_element:
  "currentLines App_init = [] \<and>
   currentShapes App_init = [] \<and>
   undoStack App_init = [emptySnapshot] \<and>
   undoStack (handleMouseDown App_init (Some (Some (3, 4)))) =
     [emptySnapshot, \<lparr>lines = [0], shapes = []\<rparr>] \<and>
   lineObjects (handleMouseDown App_init (Some (Some (3, 4)))) 0 =
     \<lparr>points = [3, 4], line_thickness = 2\<rparr>"
  by (simp add: handleMouseDown_def App_init_def currentLines_def currentShapes_def
      currentLineRefs_def currentShapeRefs_def emptyPage_def emptySnapshot_def Let_def)

text \<open>In general, where the current page has an entry, the snapshot pushed by the
  pointer-down is the page as the pointer-down leaves it.\<close>

lemma handleMouseDown_snapshot:
  "pages s (currentPage s) = Some p \<Longrightarrow>
   last (undoStack (handleMouseDown s (Some (Some pos)))) =
     currentSnapshot (handleMouseDown s (Some (Some pos)))"
  by (simp add: handleMouseDown_def currentSnapshot_def currentLineRefs_def
      currentShapeRefs_def Let_def)

subsection \<open>Choosing a file\<close>

text \<open>
  C9. \<open>handleFileChange\<close> with a file selected discards the session, whatever it held:
  the pages map becomes the single empty entry for page 1, the undo stack one empty
  snapshot, the redo stack empty and the current page 1.
\<close>

theorem fileChange_discards_session:
  "pages (handleFileChange s (Some f)) = [1 \<mapsto> emptyPage] \<and>
   undoStack (handleFileChange s (Some f)) = [emptySnapshot] \<and>
   redoStack (handleFileChange s (Some f)) = [] \<and>
   currentPage (handleFileChange s (Some f)) = 1 \<and>
   pdfFile (handleFileChange s (Some f)) = Some f"
  by (simp add: handleFileChange_def resetCanvas_def)

subsection \<open>Page navigation\<close>

text \<open>
  C6. \<open>navigatePage s n\<close> makes \<open>n\<close> the current page and leaves both history stacks
  as they are. If page \<open>n\<close> has no entry it gets the empty one; if it has one, the pages
  map is unchanged; in both cases the entry of every other page is unchanged, and no
  line or shape object changes.
\<close>

theorem navigatePage_effect:
  "currentPage (navigatePage s n) = n \<and>
   undoStack (navigatePage s n) = undoStack s \<and>
   redoStack (navigatePage s n) = redoStack s \<and>
   (pages s n = None \<longrightarrow> pages (navigatePage s n) n = Some emptyPage) \<and>
   (pages s n \<noteq> None \<longrightarrow> pages (navigatePage s n) = pages s) \<and>
   (\<forall>m. m \<noteq> n \<longrightarrow> pages (navigatePage s n) m = pages s m) \<and>
   lineObjects (navigatePage s n) = lineObjects s \<and>
   shapeObjects (navigatePage s n) = shapeObjects s"
  by (simp add: navigatePage_def Let_def)

theorem navigatePage_effect_witness:
  "pages (handleMouseDown App_init (Some (Some (1, 2)))) 3 = None \<and>
   pages (handleMouseDown App_init (Some (Some (1, 2)))) 1 \<noteq> None \<and>
   (1::int) \<noteq> 3 \<and>
   currentPage (navigatePage (handleMouseDown App_init (Some (Some (1, 2)))) 3) = 3 \<and>
   pages (navigatePage (handleMouseDown App_init (Some (Some (1, 2)))) 3) 3 = Some emptyPage \<and>
   pages (navigatePage (handleMouseDown App_init (Some (Some (1, 2)))) 3) 1 =
     Some \<lparr>lines = [0], shapes = [], actions = Some []\<rparr> \<and>
   lineObjects (navigatePage (handleMouseDown App_init (Some (Some (1, 2)))) 3) 0 =
     \<lparr>points = [1, 2], line_thickness = 2\<rparr> \<and>
   pages (navigatePage (navigatePage (handleMouseDown App_init (Some (Some (1, 2)))) 3) 1) =
     pages (navigatePage (handleMouseDown App_init (Some (Some (1, 2)))) 3)"
  using navigatePage_effect [of "handleMouseDown App_init (Some (Some (1, 2)))" 3]
        navigatePage_effect [of "navigatePage (handleMouseDown App_init (Some (Some (1, 2)))) 3" 1]
  by (simp add: handleMouseDown_def App_init_def emptyPage_def Let_def navigatePage_def)

subsection \<open>Completed draws\<close>

text \<open>While the element that a pointer-move changes exists, the pointer-move returns
  normally, keeps it in existence, and changes neither the pages map nor the stacks.\<close>

lemma handleMouseMove_lastElementExists:
  assumes "lastElementExists s"
  shows "\<exists>s'. handleMouseMove s e = Inr s' \<and> lastElementExists s' \<and>
           currentPage s' = currentPage s \<and> pages s' = pages s \<and>
           undoStack s' = undoStack s \<and> redoStack s' = redoStack s"
  using assms
  by (auto simp: handleMouseMove_def lastElementExists_def Let_def
      split: option.splits if_splits)

lemma handleMouseMoves_lastElementExists:
  "lastElementExists s \<Longrightarrow>
   \<exists>s'. handleMouseMoves s es = Inr s' \<and> lastElementExists s' \<and>
           currentPage s' = currentPage s \<and> pages s' = pages s \<and>
           undoStack s' = undoStack s \<and> redoStack s' = redoStack s"
proof (induction es arbitrary: s)
  case Nil
  then show ?case by simp
next
  case (Cons e es)
  from handleMouseMove_lastElementExists [OF Cons.prems, of e]
  obtain s1 where s1: "handleMouseMove s e = Inr s1" "lastElementExists s1"
      "currentPage s1 = currentPage s" "pages s1 = pages s"
      "undoStack s1 = undoStack s" "redoStack s1 = redoStack s"
    by blast
  from Cons.IH [OF s1(2)]
  obtain s2 where s2: "handleMouseMoves s1 es = Inr s2" "lastElementExists s2"
      "currentPage s2 = currentPage s1" "pages s2 = pages s1"
      "undoStack s2 = undoStack s1" "redoStack s2 = redoStack s1"
    by blast
  show ?case
    using s1 s2 by simp
qed

lemma handleMouseDown_lastElementExists:
  "lastElementExists (handleMouseDown s (Some (Some pos)))"
  by (simp add: handleMouseDown_def lastElementExists_def Let_def)

lemma handleMouseDown_count:
  "length (currentLineRefs (handleMouseDown s (Some (Some pos)))) +
   length (currentShapeRefs (handleMouseDown s (Some (Some pos)))) =
   Suc (length (currentLineRefs s) + length (currentShapeRefs s))"
  by (simp add: handleMouseDown_def currentLineRefs_def currentShapeRefs_def emptyPage_def
      Let_def split: option.splits)

lemma handleMouseDown_frame:
  "currentPage (handleMouseDown s e) = currentPage s \<and>
   (\<forall>n. n \<noteq> currentPage s \<longrightarrow> pages (handleMouseDown s e) n = pages s n)"
  by (simp add: handleMouseDown_def Let_def split: option.splits)

lemma handleMouseDown_stacks:
  "\<exists>snap. undoStack (handleMouseDown s (Some (Some pos))) = undoStack s @ [snap]"
  by (simp add: handleMouseDown_def Let_def)

lemma length_current:
  "length (currentLines s) = length (currentLineRefs s)"
  "length (currentShapes s) = length (currentShapeRefs s)"
  by (simp_all add: currentLines_def currentShapes_def)

lemma completedDraw_result:
  "\<exists>s'. completedDraw s d = Inr s' \<and>
         currentPage s' = currentPage s \<and>
         length (currentLines s') + length (currentShapes s') =
           Suc (length (currentLines s) + length (currentShapes s)) \<and>
         (\<exists>snap. undoStack s' = undoStack s @ [snap]) \<and>
         redoStack s' = [] \<and>
         (\<forall>n. n \<noteq> currentPage s \<longrightarrow> pages s' n = pages s n)"
proof -
  let ?t = "handleToolSelect s (draw_tool d)"
  let ?s0 = "handleMouseDown ?t (Some (Some (draw_start d)))"
  have t: "currentPage ?t = currentPage s" "pages ?t = pages s" "undoStack ?t = undoStack s"
      "currentLineRefs ?t = currentLineRefs s" "currentShapeRefs ?t = currentShapeRefs s"
    by (simp_all add: handleToolSelect_def currentLineRefs_def currentShapeRefs_def)
  from handleMouseMoves_lastElementExists [OF handleMouseDown_lastElementExists,
      of ?t "draw_start d" "draw_moves d"]
  obtain s1 where s1: "handleMouseMoves ?s0 (draw_moves d) = Inr s1"
      "currentPage s1 = currentPage ?s0" "pages s1 = pages ?s0"
      "undoStack s1 = undoStack ?s0" "redoStack s1 = redoStack ?s0"
    by blast
  have refs: "currentLineRefs s1 = currentLineRefs ?s0" "currentShapeRefs s1 = currentShapeRefs ?s0"
    using s1 by (simp_all add: currentLineRefs_def currentShapeRefs_def)
  have up: "currentPage (handleMouseUp s1) = currentPage s1"
      "currentLineRefs (handleMouseUp s1) = currentLineRefs s1"
      "currentShapeRefs (handleMouseUp s1) = currentShapeRefs s1"
      "undoStack (handleMouseUp s1) = undoStack s1"
      "redoStack (handleMouseUp s1) = redoStack s1"
      "pages (handleMouseUp s1) = pages s1"
    by (simp_all add: handleMouseUp_def currentLineRefs_def currentShapeRefs_def)
  have stk: "\<exists>snap. undoStack ?s0 = undoStack s @ [snap]" "redoStack ?s0 = []"
    using handleMouseDown_stacks [of ?t "draw_start d"] t
    by (simp_all add: handleMouseDown_def Let_def)
  have res: "completedDraw s d = Inr (handleMouseUp s1)"
    using s1(1) by (simp add: completedDraw_def)
  show ?thesis
    using res s1 up stk t refs handleMouseDown_count [of ?t "draw_start d"]
      handleMouseDown_frame [of ?t "Some (Some (draw_start d))"]
    by (simp add: length_current)
qed

text \<open>
  C8. Every sequence of completed draws (tool choice, pointer-down at a valid position,
  any number of pointer-moves, pointer-up), with nothing else in between, runs without
  error, stays on its page, and adds to the lines and shapes of that page exactly as many
  elements as there are draws; from the initial state, where the page is empty, the
  number of lines plus shapes equals the number of completed draws.
\<close>

theorem completed_draws_count:
  "(\<exists>s'. completedDraws s ds = Inr s' \<and>
         currentPage s' = currentPage s \<and>
         length (currentLines s') + length (currentShapes s') =
           length (currentLines s) + length (currentShapes s) + length ds) \<and>
   (\<exists>s'. completedDraws App_init ds = Inr s' \<and>
         length (currentLines s') + length (currentShapes s') = length ds)"
proof -
  have gen: "\<exists>s'. completedDraws s ds = Inr s' \<and>
         currentPage s' = currentPage s \<and>
         length (currentLines s') + length (currentShapes s') =
           length (currentLines s) + length (currentShapes s) + length ds" for s
  proof (induction ds arbitrary: s)
    case Nil
    then show ?case by simp
  next
    case (Cons d ds)
    from completedDraw_result [of s d]
    obtain s1 where s1: "completedDraw s d = Inr s1" "currentPage s1 = currentPage s"
        "length (currentLines s1) + length (currentShapes s1) =
           Suc (length (currentLines s) + length (currentShapes s))"
      by blast
    from Cons.IH [of s1]
    obtain s2 where s2: "completedDraws s1 ds = Inr s2" "currentPage s2 = currentPage s1"
        "length (currentLines s2) + length (currentShapes s2) =
           length (currentLines s1) + length (currentShapes s1) + length ds"
      by blast
    show ?case using s1 s2 by simp
  qed
  have init: "length (currentLines App_init) + length (currentShapes App_init) = 0"
    by (simp add: App_init_def currentLines_def currentShapes_def currentLineRefs_def
        currentShapeRefs_def emptyPage_def)
  from gen [of App_init] init
  have "\<exists>s'. completedDraws App_init ds = Inr s' \<and>
         length (currentLines s') + length (currentShapes s') = length ds"
    by auto
  with gen [of s] show ?thesis
    by blast
qed

theorem completed_draws_count_witness:
  "\<exists>s'. completedDraws App_init [thirdStroke, rectangleDrag] = Inr s' \<and>
      length (currentLines s') + length (currentShapes s') = 2"
  using completed_draws_count [of App_init "[thirdStroke, rectangleDrag]"]
  by (auto simp del: completedDraws.simps simp: numeral_2_eq_2)

subsection \<open>Allocated references\<close>

text \<open>In every state that a run of events reaches from the initial state, the
  references held by the pages and by the snapshots of both stacks are below the
  allocation counters, so the object that a pointer-down creates is a new one.\<close>

lemma allocated_mono:
  "allocated s ls ss \<Longrightarrow> nextLine s \<le> nextLine s' \<Longrightarrow> nextShape s \<le> nextShape s' \<Longrightarrow>
   allocated s' ls ss"
  by (auto simp: allocated_def list_all_iff)

lemma refsAllocated_init: "refsAllocated App_init"
  by (simp add: refsAllocated_def App_init_def allocated_def emptyPage_def emptySnapshot_def)

lemma refsAllocated_page_lines:
  "refsAllocated s \<Longrightarrow> pages s n = Some p \<Longrightarrow> r \<in> set (lines p) \<Longrightarrow> r < nextLine s"
  by (auto simp: refsAllocated_def allocated_def list_all_iff)

lemma refsAllocated_page_shapes:
  "refsAllocated s \<Longrightarrow> pages s n = Some p \<Longrightarrow> r \<in> set (shapes p) \<Longrightarrow> r < nextShape s"
  by (auto simp: refsAllocated_def allocated_def list_all_iff)

lemma refsAllocated_undo_lines:
  "refsAllocated s \<Longrightarrow> sn \<in> set (undoStack s) \<Longrightarrow> r \<in> set (lines sn) \<Longrightarrow> r < nextLine s"
  by (auto simp: refsAllocated_def allocated_def list_all_iff)

lemma refsAllocated_undo_shapes:
  "refsAllocated s \<Longrightarrow> sn \<in> set (undoStack s) \<Longrightarrow> r \<in> set (shapes sn) \<Longrightarrow> r < nextShape s"
  by (auto simp: refsAllocated_def allocated_def list_all_iff)

lemma refsAllocated_redo_lines:
  "refsAllocated s \<Longrightarrow> sn \<in> set (redoStack s) \<Longrightarrow> r \<in> set (lines sn) \<Longrightarrow> r < nextLine s"
  by (auto simp: refsAllocated_def allocated_def list_all_iff)

lemma refsAllocated_redo_shapes:
  "refsAllocated s \<Longrightarrow> sn \<in> set (redoStack s) \<Longrightarrow> r \<in> set (shapes sn) \<Longrightarrow> r < nextShape s"
  by (auto simp: refsAllocated_def allocated_def list_all_iff)

lemma refsAllocated_current_lines:
  "refsAllocated s \<Longrightarrow> Some p = pages s n \<Longrightarrow> r \<in> set (lines p) \<Longrightarrow> r < nextLine s"
  using refsAllocated_page_lines [of s n p r] by simp

lemma refsAllocated_current_shapes:
  "refsAllocated s \<Longrightarrow> Some p = pages s n \<Longrightarrow> r \<in> set (shapes p) \<Longrightarrow> r < nextShape s"
  using refsAllocated_page_shapes [of s n p r] by simp

lemma refsAllocated_last_undo_lines:
  "refsAllocated s \<Longrightarrow> undoStack s \<noteq> [] \<Longrightarrow> r \<in> set (lines (last (undoStack s))) \<Longrightarrow>
     r < nextLine s"
  using refsAllocated_undo_lines [of s "last (undoStack s)" r] by simp

lemma refsAllocated_last_undo_shapes:
  "refsAllocated s \<Longrightarrow> undoStack s \<noteq> [] \<Longrightarrow> r \<in> set (shapes (last (undoStack s))) \<Longrightarrow>
     r < nextShape s"
  using refsAllocated_undo_shapes [of s "last (undoStack s)" r] by simp

lemma refsAllocated_last_redo_lines:
  "refsAllocated s \<Longrightarrow> redoStack s \<noteq> [] \<Longrightarrow> r \<in> set (lines (last (redoStack s))) \<Longrightarrow>
     r < nextLine s"
  using refsAllocated_redo_lines [of s "last (redoStack s)" r] by simp

lemma refsAllocated_last_redo_shapes:
  "refsAllocated s \<Longrightarrow> redoStack s \<noteq> [] \<Longrightarrow> r \<in> set (shapes (last (redoStack s))) \<Longrightarrow>
     r < nextShape s"
  using refsAllocated_redo_shapes [of s "last (redoStack s)" r] by simp

lemmas refsAllocated_below =
  refsAllocated_page_lines refsAllocated_page_shapes refsAllocated_undo_lines
  refsAllocated_undo_shapes refsAllocated_redo_lines refsAllocated_redo_shapes
  refsAllocated_current_lines refsAllocated_current_shapes
  refsAllocated_last_undo_lines refsAllocated_last_undo_shapes
  refsAllocated_last_redo_lines refsAllocated_last_redo_shapes

lemma refsAllocated_handleMouseDown:
  assumes "refsAllocated s"
  shows "refsAllocated (handleMouseDown s e)"
  unfolding refsAllocated_def [of "handleMouseDown s e"]
  using assms
  by (auto simp: handleMouseDown_def allocated_def list_all_iff Let_def emptyPage_def
      less_Suc_eq split: option.splits if_splits intro: refsAllocated_below)

lemma refsAllocated_handleMouseMove:
  assumes "refsAllocated s" "handleMouseMove s e = Inr s'"
  shows "refsAllocated s'"
  using assms
  by (auto simp: refsAllocated_def handleMouseMove_def allocated_def Let_def
      split: option.splits if_splits)

lemma refsAllocated_undoAction:
  assumes "refsAllocated s"
  shows "refsAllocated (undoAction s)"
  unfolding refsAllocated_def [of "undoAction s"]
  using assms
  by (auto simp: undoAction_def allocated_def list_all_iff Let_def
      currentSnapshot_def currentLineRefs_def currentShapeRefs_def
      dest: in_set_butlastD split: option.splits if_splits intro: refsAllocated_below)

lemma refsAllocated_redoAction:
  assumes "refsAllocated s"
  shows "refsAllocated (redoAction s)"
  unfolding refsAllocated_def [of "redoAction s"]
  using assms
  by (auto simp: redoAction_def allocated_def list_all_iff Let_def
      currentSnapshot_def currentLineRefs_def currentShapeRefs_def
      dest: in_set_butlastD split: option.splits if_splits intro: refsAllocated_below)

lemma refsAllocated_others:
  "refsAllocated s \<Longrightarrow> refsAllocated (handleToolSelect s t)"
  "refsAllocated s \<Longrightarrow> refsAllocated (handleMouseUp s)"
  "refsAllocated s \<Longrightarrow> refsAllocated (clearCanvas s)"
  "refsAllocated s \<Longrightarrow> refsAllocated (navigatePage s n)"
  "refsAllocated s \<Longrightarrow> refsAllocated (handleFileChange s f)"
  "refsAllocated s \<Longrightarrow> refsAllocated (onDocumentLoadSuccess s k)"
  by (auto simp: refsAllocated_def handleToolSelect_def handleMouseUp_def clearCanvas_def
      navigatePage_def handleFileChange_def resetCanvas_def onDocumentLoadSuccess_def
      allocated_def emptyPage_def emptySnapshot_def Let_def split: option.splits if_splits)

lemma refsAllocated_dispatch:
  "refsAllocated s \<Longrightarrow> dispatch s ev = Inr s' \<Longrightarrow> refsAllocated s'"
  by (cases ev)
     (auto simp: refsAllocated_handleMouseDown refsAllocated_undoAction
        refsAllocated_redoAction refsAllocated_others
        dest: refsAllocated_handleMouseMove)

lemma refsAllocated_run:
  "refsAllocated s \<Longrightarrow> run s evs = Inr s' \<Longrightarrow> refsAllocated s'"
proof (induction evs arbitrary: s)
  case Nil
  then show ?case by simp
next
  case (Cons ev evs)
  then show ?case
    by (auto split: sum.splits dest: refsAllocated_dispatch)
qed

lemma reachable_allocated:
  assumes "run App_init evs = Inr s"
  shows "allocated s (currentLineRefs s) (currentShapeRefs s)"
proof -
  have "refsAllocated s"
    using refsAllocated_run [OF refsAllocated_init assms] .
  then show ?thesis
    by (auto simp: refsAllocated_def currentLineRefs_def currentShapeRefs_def allocated_def
        split: option.splits)
qed

subsection \<open>Extending the last element\<close>





subsection \<open>Undo after a page change\<close>




end
